theory Spec2Isabelle
  imports Main
begin

section \<open>JavaScript values as the adapters read them\<close>

text \<open>
  An optional string field of a raw object is a \<open>string option\<close>: \<open>None\<close> stands for a
  field that is \<^verbatim>\<open>undefined\<close> or \<^verbatim>\<open>null\<close>. A value is truthy when it is a non-empty
  string; \<^verbatim>\<open>a || b\<close> is \<open>a\<close> when \<open>a\<close> is truthy and \<open>b\<close> otherwise.
\<close>

definition truthy :: "string option \<Rightarrow> bool" where
  "truthy v = (case v of None \<Rightarrow> False | Some s \<Rightarrow> s \<noteq> [])"

definition js_or :: "string option \<Rightarrow> string option \<Rightarrow> string option" where
  "js_or a b = (if truthy a then a else b)"

text \<open>\<^verbatim>\<open>s.startsWith(p)\<close>, \<^verbatim>\<open>s.substring(n)\<close> and \<^verbatim>\<open>s.slice(-n)\<close>.\<close>

definition startsWith :: "string \<Rightarrow> string \<Rightarrow> bool" where
  "startsWith s p = (take (length p) s = p)"

definition substring :: "string \<Rightarrow> nat \<Rightarrow> string" where
  "substring s n = drop n s"

definition slice_last :: "string \<Rightarrow> nat \<Rightarrow> string" where
  "slice_last s n = drop (length s - n) s"

text \<open>\<^verbatim>\<open>xs.join(' ')\<close> on an array of strings.\<close>

fun join_space :: "string list \<Rightarrow> string" where
  "join_space [] = []"
| "join_space [x] = x"
| "join_space (x # y # ys) = x @ '' '' @ join_space (y # ys)"

text \<open>
  String concatenation converts its operand first: \<^verbatim>\<open>undefined + ' x'\<close> is the string
  \<^verbatim>\<open>'undefined x'\<close>.
\<close>

definition to_string :: "string option \<Rightarrow> string" where
  "to_string v = (case v of None \<Rightarrow> ''undefined'' | Some s \<Rightarrow> s)"

text \<open>
  A JavaScript number that holds an amount in minor units: an integer, or \<^verbatim>\<open>NaN\<close>.
  Subtraction with \<^verbatim>\<open>NaN\<close> on either side is \<^verbatim>\<open>NaN\<close>. (Integers are unbounded here;
  the loss of precision of a double beyond \<open>2^53\<close> is not modelled.)
\<close>

datatype jsnum = NaN | Num int

fun minus_num :: "jsnum \<Rightarrow> jsnum \<Rightarrow> jsnum" where
  "minus_num (Num a) (Num b) = Num (a - b)"
| "minus_num _ _ = NaN"

text \<open>What a faulting statement throws.\<close>

datatype fault = TypeError | ReferenceError | RangeError

section \<open>Raw data\<close>

text \<open>
  Every response of the aggregation client may carry a \<^verbatim>\<open>status_code\<close>: a number or a
  string when it is there.
\<close>

datatype jsval = JNum int | JStr string

record response =
  status_code :: "jsval option"

record amount =
  amount :: string
  currency :: string

record balance =
  balanceType :: "string option"
  balanceAmount :: amount

record transaction =
  transactionId :: "string option"
  internalTransactionId :: "string option"
  transactionAmount :: amount
  bookingDate :: "string option"
  bookingDateTime :: "string option"
  valueDate :: "string option"
  valueDateTime :: "string option"
  remittanceInformationUnstructured :: "string option"
  remittanceInformationStructured :: "string option"
  remittanceInformationStructuredArray :: "string list option"
  additionalInformation :: "string option"
  ultimateCreditor :: "string option"
  creditorName :: "string option"
  debtorName :: "string option"

text \<open>
  The object a \<^verbatim>\<open>normalizeTransaction\<close> returns: \<open>spread\<close> holds the fields copied by
  \<^verbatim>\<open>...transaction\<close>, with the ones the literal sets again replaced; \<open>date\<close> and
  \<open>payeeName\<close> are the fields it adds (\<open>None\<close> when the literal does not set the field or
  sets it to \<^verbatim>\<open>undefined\<close>).
\<close>

record normalizedTransaction =
  spread :: transaction
  date :: "string option"
  payeeName :: "string option"

section \<open>The default adapter (src/unnamed/part_001)\<close>

text \<open>
  \<^verbatim>\<open>normalizeTransaction(transaction, _booked)\<close>: \<open>None\<close> is the \<^verbatim>\<open>null\<close> it returns for
  a transaction with no date. The second argument is not read.
\<close>

definition remittance_of :: "transaction \<Rightarrow> string option" where
  "remittance_of transaction =
     (if truthy (remittanceInformationUnstructured transaction)
        then remittanceInformationUnstructured transaction
      else if truthy (remittanceInformationStructured transaction)
        then remittanceInformationStructured transaction
      else (case remittanceInformationStructuredArray transaction of
              None \<Rightarrow> None
            | Some arr \<Rightarrow> if length arr > 0 then Some (join_space arr) else None))"

definition append_additional :: "string option \<Rightarrow> transaction \<Rightarrow> string option" where
  "append_additional r transaction =
     (if truthy (additionalInformation transaction)
        then Some (to_string r @ ('' '' @ to_string (additionalInformation transaction)))
      else r)"

definition normalizeTransaction :: "transaction \<Rightarrow> normalizedTransaction option" where
  "normalizeTransaction transaction =
     (let date0 = js_or (js_or (js_or (bookingDate transaction) (bookingDateTime transaction))
                    (valueDate transaction)) (valueDateTime transaction)
      in if \<not> truthy date0 then None
         else
           let r = append_additional (remittance_of transaction) transaction;
               usefulCreditorName =
                 js_or (js_or (ultimateCreditor transaction) (creditorName transaction))
                   (debtorName transaction)
           in Some \<lparr> spread = transaction\<lparr> creditorName := usefulCreditorName,
                                             remittanceInformationUnstructured := r \<rparr>,
                     date = js_or (bookingDate transaction) (valueDate transaction),
                     payeeName = None \<rparr>)"

text \<open>
  \<^verbatim>\<open>calculateStartingBalance(sortedTransactions = [], balances = [])\<close>. An argument that
  is \<^verbatim>\<open>undefined\<close> (\<open>None\<close>) takes the default \<^verbatim>\<open>[]\<close>. \<^verbatim>\<open>balances.find\<close> gives the first
  entry of the type or \<^verbatim>\<open>undefined\<close>, and reading \<^verbatim>\<open>.balanceAmount\<close> of \<^verbatim>\<open>undefined\<close>
  throws a TypeError; the initial value of the \<^verbatim>\<open>reduce\<close> is evaluated before the loop.
  \<^verbatim>\<open>amountToInteger\<close> comes from \<^verbatim>\<open>../utils.js\<close> and is a parameter.
\<close>

definition or_empty :: "'a list option \<Rightarrow> 'a list" where
  "or_empty xs = (case xs of None \<Rightarrow> [] | Some l \<Rightarrow> l)"

definition calculateStartingBalance ::
    "(string \<Rightarrow> jsnum) \<Rightarrow> transaction list option \<Rightarrow> balance list option \<Rightarrow> fault + jsnum" where
  "calculateStartingBalance amountToInt sortedTransactions balances =
     (case find (\<lambda>balance. Some ''interimAvailable'' = balanceType balance) (or_empty balances) of
        None \<Rightarrow> Inl TypeError
      | Some currentBalance \<Rightarrow>
          Inr (foldl (\<lambda>total trans. minus_num total (amountToInt (amount (transactionAmount trans))))
                 (amountToInt (amount (balanceAmount currentBalance)))
                 (or_empty sortedTransactions)))"

text \<open>
  \<^verbatim>\<open>normalizeAccount(account)\<close>. \<^verbatim>\<open>account.iban.slice(-4)\<close> throws a TypeError when the
  account has no \<^verbatim>\<open>iban\<close>; \<^verbatim>\<open>join\<close> writes an absent entry as the empty string.
  \<^verbatim>\<open>printIban\<close> comes from \<^verbatim>\<open>../utils.js\<close> and is a parameter. The fields \<open>acc_id\<close> and
  \<open>inst_id\<close> are the \<^verbatim>\<open>id\<close> of an account and of an institution. The \<^verbatim>\<open>institution\<close> of
  an account is what the service's lookup in a plain object left there: \<^verbatim>\<open>null\<close>, an
  institution, or a truthy value of another kind that the lookup found along the
  prototype chain under the key given.
\<close>

record institution = response +
  inst_id :: "string option"
  inst_name :: "string option"

datatype institution_ref = Null | Found institution | Inherited string

record account =
  acc_id :: "string option"
  institution_id :: "string option"
  iban :: "string option"
  name :: "string option"
  product :: "string option"

record extendedAccount = account +
  institution :: institution_ref

record normalizedAccount =
  account_id :: "string option"
  n_institution :: institution_ref
  mask :: string
  n_iban :: "string option"
  n_name :: string
  official_name :: "string option"
  n_type :: string

definition or_blank :: "string option \<Rightarrow> string" where
  "or_blank v = (case v of None \<Rightarrow> [] | Some s \<Rightarrow> s)"

definition normalizeAccount ::
    "(extendedAccount \<Rightarrow> string option) \<Rightarrow> extendedAccount \<Rightarrow> fault + normalizedAccount" where
  "normalizeAccount printIban account =
     (case iban account of
        None \<Rightarrow> Inl TypeError
      | Some i \<Rightarrow>
          Inr \<lparr> account_id = acc_id account,
                n_institution = institution account,
                mask = slice_last i 4,
                n_iban = Some i,
                n_name = join_space [or_blank (name account), or_blank (printIban account)],
                official_name = product account,
                n_type = ''checking'' \<rparr>)"

text \<open>
  \<^verbatim>\<open>sortTransactions(transactions = [])\<close> hands its argument to \<^verbatim>\<open>Fallback.sortTransactions\<close>
  of \<^verbatim>\<open>./integration-bank.js\<close>, a parameter.
\<close>

definition sortTransactions ::
    "(transaction list \<Rightarrow> fault + transaction list) \<Rightarrow> transaction list option
      \<Rightarrow> fault + transaction list" where
  "sortTransactions fallbackSort transactions = fallbackSort (or_empty transactions)"

section \<open>The NORDEA_NDEADKKK adapter (src/unnamed/part_000)\<close>

text \<open>
  \<^verbatim>\<open>normalizeTransaction(transaction, _booked)\<close>. \<^verbatim>\<open>transaction.transactionId.startsWith\<close>
  throws a TypeError when there is no \<^verbatim>\<open>transactionId\<close>. For an identifier that starts
  with \<^verbatim>\<open>P\<close> the statement is \<^verbatim>\<open>return {Null};\<close>: an object literal whose shorthand
  property reads the identifier \<^verbatim>\<open>Null\<close>, which nothing declares, so evaluating it throws
  a ReferenceError. \<^verbatim>\<open>formatPayeeName\<close> comes from \<^verbatim>\<open>../../util/payee-name.js\<close> and is
  a parameter that may throw.
\<close>

definition nordea_normalizeTransaction ::
    "(transaction \<Rightarrow> fault + string) \<Rightarrow> transaction \<Rightarrow> fault + normalizedTransaction option" where
  "nordea_normalizeTransaction formatPayeeName transaction =
     (case transactionId transaction of
        None \<Rightarrow> Inl TypeError
      | Some tid \<Rightarrow>
          if startsWith tid ''P'' then Inl ReferenceError
          else (case formatPayeeName transaction of
                  Inl e \<Rightarrow> Inl e
                | Inr p \<Rightarrow>
                    Inr (Some \<lparr> spread = transaction,
                                date = js_or (bookingDate transaction) (valueDate transaction),
                                payeeName = Some p \<rparr>)))"

text \<open>\<^verbatim>\<open>calculateStartingBalance\<close> of this file has the body of the default one.\<close>

definition nordea_calculateStartingBalance ::
    "(string \<Rightarrow> jsnum) \<Rightarrow> transaction list option \<Rightarrow> balance list option \<Rightarrow> fault + jsnum" where
  "nordea_calculateStartingBalance amountToInt sortedTransactions balances =
     (case find (\<lambda>balance. Some ''interimAvailable'' = balanceType balance) (or_empty balances) of
        None \<Rightarrow> Inl TypeError
      | Some currentBalance \<Rightarrow>
          Inr (foldl (\<lambda>total trans. minus_num total (amountToInt (amount (transactionAmount trans))))
                 (amountToInt (amount (balanceAmount currentBalance)))
                 (or_empty sortedTransactions)))"

section \<open>The ENTERCARD_SWEDNOKK adapter (src/src/app-gocardless/banks/entercard_swednokk.js)\<close>

text \<open>
  \<^verbatim>\<open>normalizeTransaction(transaction, _booked)\<close> assigns to a field of its argument, so
  the model returns the argument as the call leaves it, next to the result.
  \<^verbatim>\<open>remittanceInformationUnstructured.startsWith\<close> throws a TypeError when the field is
  absent. In the returned literal \<^verbatim>\<open>formatPayeeName(transaction)\<close> is evaluated before the
  date; \<open>formatDate\<close> stands for \<^verbatim>\<open>d.format(d.parseISO(x), 'yyyy-MM-dd')\<close> of date-fns. Both
  are parameters that may throw.
\<close>

definition entercard_normalizeTransaction ::
    "(transaction \<Rightarrow> fault + string) \<Rightarrow> (string option \<Rightarrow> fault + string) \<Rightarrow> transaction
      \<Rightarrow> transaction \<times> (fault + normalizedTransaction option)" where
  "entercard_normalizeTransaction formatPayeeName formatDate transaction =
     (case remittanceInformationUnstructured transaction of
        None \<Rightarrow> (transaction, Inl TypeError)
      | Some r \<Rightarrow>
          let transaction' =
                (if startsWith r ''billingAmount: ''
                 then transaction\<lparr> transactionAmount :=
                        \<lparr> amount = substring r 15, currency = ''SEK'' \<rparr> \<rparr>
                 else transaction)
          in (transaction',
              case formatPayeeName transaction' of
                Inl e \<Rightarrow> Inl e
              | Inr p \<Rightarrow>
                  (case formatDate (valueDate transaction') of
                     Inl e \<Rightarrow> Inl e
                   | Inr d \<Rightarrow>
                       Inr (Some \<lparr> spread = transaction', date = Some d, payeeName = Some p \<rparr>))))"

section \<open>The BELFIUS_GKCCBEBB adapter (src/src/app-gocardless/banks/belfius_gkccbebb.js)\<close>

definition belfius_normalizeTransaction :: "transaction \<Rightarrow> normalizedTransaction option" where
  "belfius_normalizeTransaction transaction =
     Some \<lparr> spread = transaction\<lparr> transactionId := internalTransactionId transaction \<rparr>,
            date = js_or (bookingDate transaction) (valueDate transaction),
            payeeName = None \<rparr>"

section \<open>Amounts in minor units\<close>

text \<open>
  Modelled from the spec: \<^verbatim>\<open>amountToInteger\<close> of \<^verbatim>\<open>../utils.js\<close>, which is not among the
  sources. The spec has amounts as decimal strings and their integer form in minor units
  (cents): an optional \<^verbatim>\<open>-\<close>, digits, and optionally a point and more digits, times one
  hundred and rounded to the nearest integer (a half rounds up). Any other string gives
  \<^verbatim>\<open>NaN\<close>.
\<close>

definition digit_of :: "char \<Rightarrow> nat option" where
  "digit_of c = (let n = (of_char c :: nat) in if 48 \<le> n \<and> n \<le> 57 then Some (n - 48) else None)"

fun digits_val :: "nat \<Rightarrow> string \<Rightarrow> nat option" where
  "digits_val acc [] = Some acc"
| "digits_val acc (c # cs) =
     (case digit_of c of None \<Rightarrow> None | Some d \<Rightarrow> digits_val (10 * acc + d) cs)"

definition amountToInteger :: "string \<Rightarrow> jsnum" where
  "amountToInteger s =
     (let neg = (take 1 s = ''-'');
          body = (if neg then drop 1 s else s);
          whole = takeWhile (\<lambda>c. c \<noteq> CHR ''.'') body;
          frac = drop 1 (dropWhile (\<lambda>c. c \<noteq> CHR ''.'') body)
      in if whole = [] \<and> frac = [] then NaN
         else (case (digits_val 0 whole, digits_val 0 frac) of
                 (Some w, Some f) \<Rightarrow>
                   let k = (10::int) ^ length frac;
                       n = (if neg then - 1 else 1) * (int w * k + int f)
                   in Num ((200 * n + k) div (2 * k))
               | _ \<Rightarrow> NaN))"

section \<open>The error taxonomy (src/unnamed/part_002)\<close>

text \<open>
  The \<^verbatim>\<open>switch\<close> compares with \<^verbatim>\<open>===\<close>, so only the numbers match. The typed errors
  are constructed from the response; that payload is not modelled.
\<close>

datatype error =
    InvalidInputDataError
  | InvalidNordigenTokenError
  | AccessDeniedError
  | NotFoundError
  | ResourceSuspended
  | RateLimitError
  | UnknownError
  | ServiceError
  | RequisitionNotLinked "string option"
  | AccountNotLinedToRequisition string string
  | Fault fault

definition handleNordigenError :: "'a response_scheme \<Rightarrow> error + unit" where
  "handleNordigenError response =
     (case status_code response of
        Some (JNum n) \<Rightarrow>
          if n = 400 then Inl InvalidInputDataError
          else if n = 401 then Inl InvalidNordigenTokenError
          else if n = 403 then Inl AccessDeniedError
          else if n = 404 then Inl NotFoundError
          else if n = 409 then Inl ResourceSuspended
          else if n = 429 then Inl RateLimitError
          else if n = 500 then Inl UnknownError
          else if n = 503 then Inl ServiceError
          else Inr ()
      | _ \<Rightarrow> Inr ())"

section \<open>The orchestration service (src/unnamed/part_002)\<close>

text \<open>
  The aggregation client is not among the sources: its calls are the fields of a record
  of functions, a parameter of every operation. \<open>client_generateToken k\<close> is the response
  to the \<open>k\<close>-th call of \<^verbatim>\<open>generateToken\<close> since the process started. The client object
  also holds the one mutable field of the service, \<^verbatim>\<open>token\<close>; \<open>generated\<close> counts the
  \<^verbatim>\<open>generateToken\<close> calls issued so far.
\<close>

record tokenData = response +
  access :: "string option"

record requisition = response +
  req_id :: "string option"
  status :: "string option"
  accounts :: "string list"
  req_institution_id :: "string option"

text \<open>
  The \<^verbatim>\<open>account\<close> object of a details response. A field is \<open>None\<close> when the object has no
  such property and \<open>Some v\<close> when it has one, whose value \<open>v\<close> may itself be \<^verbatim>\<open>null\<close> or
  \<^verbatim>\<open>undefined\<close> (\<open>Some None\<close>).
\<close>

record accountDetails =
  details_id :: "string option option"
  details_institution_id :: "string option option"
  details_iban :: "string option option"
  details_name :: "string option option"
  details_product :: "string option option"

record detailsResponse = response +
  details_account :: "accountDetails option"

record metadataResponse = response +
  metadata :: account

record transactionLists =
  booked :: "transaction list option"
  pending :: "transaction list option"

record transactionsResponse = response +
  transactions :: "transactionLists option"

record balancesResponse = response +
  balances :: "balance list option"

record aggregationClient =
  client_generateToken :: "nat \<Rightarrow> tokenData"
  client_getRequisitionById :: "string \<Rightarrow> requisition"
  client_getDetails :: "string \<Rightarrow> detailsResponse"
  client_getMetadata :: "string \<Rightarrow> metadataResponse"
  client_getInstitutionById :: "string option \<Rightarrow> institution"
  client_getTransactions :: "string \<Rightarrow> string \<Rightarrow> string \<Rightarrow> transactionsResponse"
  client_getBalances :: "string \<Rightarrow> balancesResponse"

record nordigenClient =
  token :: "string option"
  generated :: nat

text \<open>
  What \<^verbatim>\<open>BankFactory(institutionId)\<close> of \<^verbatim>\<open>../bank-factory\<close> returns: the operations of an
  adapter the service calls. An adapter throws faults only.
\<close>

record IBank =
  bank_normalizeAccount :: "extendedAccount \<Rightarrow> fault + normalizedAccount"
  bank_sortTransactions :: "transaction list option \<Rightarrow> fault + transaction list"
  bank_calculateStartingBalance ::
    "transaction list option \<Rightarrow> balance list option \<Rightarrow> fault + jsnum"

record transactionsWithBalance =
  r_balances :: "balance list option"
  r_institutionId :: "string option"
  r_startingBalance :: jsnum
  r_booked :: "transaction list"
  r_pending :: "transaction list"

text \<open>
  An operation of the service reads and writes the client object and returns a value or
  throws. Sequencing stops at the first throw.
\<close>

type_synonym 'a service = "nordigenClient \<Rightarrow> (error + 'a) \<times> nordigenClient"

definition and_then :: "'a service \<Rightarrow> ('a \<Rightarrow> 'b service) \<Rightarrow> 'b service" where
  "and_then m f = (\<lambda>c. case m c of (Inl e, c') \<Rightarrow> (Inl e, c') | (Inr x, c') \<Rightarrow> f x c')"

definition finish :: "error + 'a \<Rightarrow> 'a service" where
  "finish r = (\<lambda>c. (r, c))"

definition attempt :: "error + 'a \<Rightarrow> ('a \<Rightarrow> error + 'b) \<Rightarrow> error + 'b" where
  "attempt r f = (case r of Inl e \<Rightarrow> Inl e | Inr x \<Rightarrow> f x)"

definition of_fault :: "fault + 'a \<Rightarrow> error + 'a" where
  "of_fault r = (case r of Inl e \<Rightarrow> Inl (Fault e) | Inr x \<Rightarrow> Inr x)"

text \<open>
  \<^verbatim>\<open>Promise.all\<close> over a mapped array: the results in the order of the array. All calls
  are pure here, and the first throw in the order of the array is the one that surfaces
  (which of several rejections settles first in time is not modelled).
\<close>

fun all_of :: "('a \<Rightarrow> error + 'b) \<Rightarrow> 'a list \<Rightarrow> error + 'b list" where
  "all_of f [] = Inr []"
| "all_of f (x # xs) = attempt (f x) (\<lambda>y. attempt (all_of f xs) (\<lambda>ys. Inr (y # ys)))"

definition setToken :: "aggregationClient \<Rightarrow> unit service" where
  "setToken api = (\<lambda>c.
     if \<not> truthy (token c) then
       let tokenData = client_generateToken api (generated c);
           c1 = c\<lparr> generated := Suc (generated c) \<rparr>
       in (case handleNordigenError tokenData of
             Inl e \<Rightarrow> (Inl e, c1)
           | Inr _ \<Rightarrow> (Inr (), c1\<lparr> token := access tokenData \<rparr>))
     else (Inr (), c))"

definition getRequisition :: "aggregationClient \<Rightarrow> string \<Rightarrow> requisition service" where
  "getRequisition api requisitionId =
     and_then (setToken api) (\<lambda>_.
       let response = client_getRequisitionById api requisitionId
       in finish (attempt (handleNordigenError response) (\<lambda>_. Inr response)))"

definition getLinkedRequisition :: "aggregationClient \<Rightarrow> string \<Rightarrow> requisition service" where
  "getLinkedRequisition api requisitionId =
     and_then (getRequisition api requisitionId) (\<lambda>requisition.
       if status requisition \<noteq> Some ''LN''
       then finish (Inl (RequisitionNotLinked (status requisition)))
       else finish (Inr requisition))"

text \<open>
  \<^verbatim>\<open>{...metadataAccount, ...detailedAccount.account}\<close>: every property that the details
  object has replaces the same field of the metadata, also when its value is \<^verbatim>\<open>null\<close> or
  \<^verbatim>\<open>undefined\<close>; spreading an absent details object copies nothing.
\<close>

definition over :: "'a \<Rightarrow> 'a option \<Rightarrow> 'a" where
  "over a b = (case b of None \<Rightarrow> a | Some v \<Rightarrow> v)"

definition merge_account :: "account \<Rightarrow> accountDetails option \<Rightarrow> account" where
  "merge_account m d =
     (case d of
        None \<Rightarrow> m
      | Some a \<Rightarrow>
          \<lparr> acc_id = over (acc_id m) (details_id a),
            institution_id = over (institution_id m) (details_institution_id a),
            iban = over (iban m) (details_iban a),
            name = over (name m) (details_name a),
            product = over (product m) (details_product a) \<rparr>)"

definition getDetailedAccount :: "aggregationClient \<Rightarrow> string \<Rightarrow> error + account" where
  "getDetailedAccount api accountId =
     (let detailedAccount = client_getDetails api accountId;
          metadataAccount = client_getMetadata api accountId
      in attempt (handleNordigenError detailedAccount) (\<lambda>_.
         attempt (handleNordigenError metadataAccount) (\<lambda>_.
         Inr (merge_account (metadata metadataAccount) (details_account detailedAccount)))))"

definition getInstitution :: "aggregationClient \<Rightarrow> string option \<Rightarrow> error + institution" where
  "getInstitution api institutionId =
     (let response = client_getInstitutionById api institutionId
      in attempt (handleNordigenError response) (\<lambda>_. Inr response))"

text \<open>
  \<^verbatim>\<open>institutionsById\<close> is a plain object, a \<^verbatim>\<open>{}\<close> at first. A property key is a string
  (\<^verbatim>\<open>undefined\<close> is the key \<^verbatim>\<open>'undefined'\<close>). Writing \<^verbatim>\<open>acc[k] = institution\<close> makes an own
  property, except for \<^verbatim>\<open>k = '__proto__'\<close>, which makes the institution the prototype of
  the object. Reading \<^verbatim>\<open>acc[k]\<close> finds an own property first, then a field of the
  institution that was made the prototype (its fields are the ones of the record:
  \<^verbatim>\<open>id\<close>, \<^verbatim>\<open>name\<close>, \<^verbatim>\<open>status_code\<close>), then a member of \<^verbatim>\<open>Object.prototype\<close>; reading
  \<^verbatim>\<open>acc['__proto__']\<close> gives the prototype itself. \<^verbatim>\<open>|| null\<close> turns a falsy value into
  \<^verbatim>\<open>null\<close>.
\<close>

record plainObject =
  own :: "string \<rightharpoonup> institution"
  proto :: "institution option"

definition object_prototype_members :: "string list" where
  "object_prototype_members =
     [''constructor'', ''hasOwnProperty'', ''isPrototypeOf'', ''propertyIsEnumerable'',
      ''toLocaleString'', ''toString'', ''valueOf'', ''__defineGetter__'', ''__defineSetter__'',
      ''__lookupGetter__'', ''__lookupSetter__'']"

definition put :: "plainObject \<Rightarrow> institution \<Rightarrow> plainObject" where
  "put acc i =
     (let k = to_string (inst_id i)
      in if k = ''__proto__'' then acc\<lparr> proto := Some i \<rparr>
         else acc\<lparr> own := (own acc)(k \<mapsto> i) \<rparr>)"

definition truthy_field :: "institution \<Rightarrow> string \<Rightarrow> bool option" where
  "truthy_field p k =
     (if k = ''id'' then map_option (\<lambda>s. s \<noteq> []) (inst_id p)
      else if k = ''name'' then map_option (\<lambda>s. s \<noteq> []) (inst_name p)
      else if k = ''status_code'' then
        map_option (\<lambda>v. case v of JNum n \<Rightarrow> n \<noteq> 0 | JStr s \<Rightarrow> s \<noteq> []) (status_code p)
      else None)"

definition get_or_null :: "plainObject \<Rightarrow> string \<Rightarrow> institution_ref" where
  "get_or_null acc k =
     (if k = ''__proto__'' then (case proto acc of Some p \<Rightarrow> Found p | None \<Rightarrow> Inherited k)
      else
        (case own acc k of
           Some i \<Rightarrow> Found i
         | None \<Rightarrow>
             (case (case proto acc of None \<Rightarrow> None | Some p \<Rightarrow> truthy_field p k) of
                Some t \<Rightarrow> if t then Inherited k else Null
              | None \<Rightarrow> if k \<in> set object_prototype_members then Inherited k else Null)))"

definition extendAccountsAboutInstitutions ::
    "account list \<Rightarrow> institution list \<Rightarrow> extendedAccount list" where
  "extendAccountsAboutInstitutions accs institutions =
     (let institutionsById = foldl put \<lparr> own = Map.empty, proto = None \<rparr> institutions
      in map (\<lambda>account.
                \<lparr> acc_id = acc_id account,
                  institution_id = institution_id account,
                  iban = iban account,
                  name = name account,
                  product = product account,
                  institution = get_or_null institutionsById (to_string (institution_id account)) \<rparr>)
           accs)"

definition getTransactions ::
    "aggregationClient \<Rightarrow> string \<Rightarrow> string \<Rightarrow> string \<Rightarrow> error + transactionsResponse" where
  "getTransactions api accountId startDate endDate =
     (let response = client_getTransactions api accountId startDate endDate
      in attempt (handleNordigenError response) (\<lambda>_. Inr response))"

definition getBalances :: "aggregationClient \<Rightarrow> string \<Rightarrow> error + balancesResponse" where
  "getBalances api accountId =
     (let response = client_getBalances api accountId
      in attempt (handleNordigenError response) (\<lambda>_. Inr response))"

text \<open>The values of a \<^verbatim>\<open>Set\<close> in the order of their first insertion.\<close>

fun insertion_order :: "'a list \<Rightarrow> 'a list \<Rightarrow> 'a list" where
  "insertion_order seen [] = seen"
| "insertion_order seen (x # xs) =
     (if x \<in> set seen then insertion_order seen xs else insertion_order (seen @ [x]) xs)"

definition getRequisitionWithAccounts ::
    "aggregationClient \<Rightarrow> (string option \<Rightarrow> IBank) \<Rightarrow> string
      \<Rightarrow> (requisition \<times> normalizedAccount list) service" where
  "getRequisitionWithAccounts api BankFactory requisitionId =
     and_then (getLinkedRequisition api requisitionId) (\<lambda>requisition.
       finish
         (attempt (all_of (getDetailedAccount api) (accounts requisition)) (\<lambda>detailedAccounts.
          let institutionIdSet = insertion_order [] (map institution_id detailedAccounts)
          in attempt (all_of (getInstitution api) institutionIdSet) (\<lambda>institutions.
             let extendedAccounts = extendAccountsAboutInstitutions detailedAccounts institutions
             in attempt (all_of (\<lambda>account.
                       of_fault (bank_normalizeAccount (BankFactory (institution_id account)) account))
                     extendedAccounts) (\<lambda>normalizedAccounts.
                Inr (requisition, normalizedAccounts))))))"

definition getTransactionsWithBalance ::
    "aggregationClient \<Rightarrow> (string option \<Rightarrow> IBank) \<Rightarrow> string \<Rightarrow> string \<Rightarrow> string \<Rightarrow> string
      \<Rightarrow> transactionsWithBalance service" where
  "getTransactionsWithBalance api BankFactory requisitionId accountId startDate endDate =
     and_then (getLinkedRequisition api requisitionId) (\<lambda>requisition.
       finish
         (if accountId \<notin> set (accounts requisition)
          then Inl (AccountNotLinedToRequisition accountId requisitionId)
          else
            attempt (getTransactions api accountId startDate endDate) (\<lambda>trs.
            attempt (getBalances api accountId) (\<lambda>accountBalance.
            let bank = BankFactory (req_institution_id requisition)
            in attempt (of_fault (bank_sortTransactions bank
                      (case transactions trs of None \<Rightarrow> None | Some t \<Rightarrow> booked t)))
                 (\<lambda>sortedBookedTransactions.
               attempt (of_fault (bank_sortTransactions bank
                      (case transactions trs of None \<Rightarrow> None | Some t \<Rightarrow> pending t)))
                 (\<lambda>sortedPendingTransactions.
               attempt (of_fault (bank_calculateStartingBalance bank
                      (Some sortedBookedTransactions) (balances accountBalance)))
                 (\<lambda>startingBalance.
               Inr \<lparr> r_balances = balances accountBalance,
                     r_institutionId = req_institution_id requisition,
                     r_startingBalance = startingBalance,
                     r_booked = sortedBookedTransactions,
                     r_pending = sortedPendingTransactions \<rparr>)))))))"

subsection \<open>Overlapping calls of \<^verbatim>\<open>setToken\<close>\<close>

text \<open>
  An \<^verbatim>\<open>async\<close> function runs without interruption up to its \<^verbatim>\<open>await\<close> and again from
  there once the awaited promise has settled. A call of \<^verbatim>\<open>setToken\<close> therefore takes two
  uninterrupted steps: \<open>Call i\<close> tests \<^verbatim>\<open>nordigenClient.token\<close> and, when it is falsy, issues
  \<^verbatim>\<open>generateToken()\<close> and waits; \<open>Resume i\<close> receives the response, passes it through the
  error mapping and stores \<^verbatim>\<open>access\<close>. Steps of different callers interleave in any
  order. \<open>Awaiting k\<close> is a caller that waits for the response to the \<open>k\<close>-th
  \<^verbatim>\<open>generateToken\<close> call.
\<close>

datatype caller = NotCalled | Awaiting nat | Returned | Threw error

datatype event = Call nat | Resume nat

record world =
  client :: nordigenClient
  callers :: "caller list"

fun step :: "aggregationClient \<Rightarrow> world \<Rightarrow> event \<Rightarrow> world" where
  "step api w (Call i) =
     (if i < length (callers w) \<and> callers w ! i = NotCalled then
        (if \<not> truthy (token (client w))
         then w\<lparr> client := (client w)\<lparr> generated := Suc (generated (client w)) \<rparr>,
                 callers := (callers w)[i := Awaiting (generated (client w))] \<rparr>
         else w\<lparr> callers := (callers w)[i := Returned] \<rparr>)
      else w)"
| "step api w (Resume i) =
     (if i < length (callers w) then
        (case callers w ! i of
           Awaiting k \<Rightarrow>
             (let tokenData = client_generateToken api k
              in case handleNordigenError tokenData of
                   Inl e \<Rightarrow> w\<lparr> callers := (callers w)[i := Threw e] \<rparr>
                 | Inr _ \<Rightarrow> w\<lparr> client := (client w)\<lparr> token := access tokenData \<rparr>,
                               callers := (callers w)[i := Returned] \<rparr>)
         | _ \<Rightarrow> w)
      else w)"

definition run :: "aggregationClient \<Rightarrow> world \<Rightarrow> event list \<Rightarrow> world" where
  "run api w evs = foldl (step api) w evs"

definition start :: "nordigenClient \<Rightarrow> nat \<Rightarrow> world" where
  "start c n = \<lparr> client = c, callers = replicate n NotCalled \<rparr>"

section \<open>Sample inputs\<close>

text \<open>A transaction with every optional field absent, and stand-ins for the helpers.\<close>

definition tx0 :: transaction where
  "tx0 = \<lparr> transactionId = None, internalTransactionId = None,
           transactionAmount = \<lparr> amount = ''0.00'', currency = ''EUR'' \<rparr>,
           bookingDate = None, bookingDateTime = None, valueDate = None, valueDateTime = None,
           remittanceInformationUnstructured = None, remittanceInformationStructured = None,
           remittanceInformationStructuredArray = None, additionalInformation = None,
           ultimateCreditor = None, creditorName = None, debtorName = None \<rparr>"

definition tx1 :: transaction where
  "tx1 = tx0\<lparr> transactionId := Some ''T1'', bookingDate := Some ''2024-01-01'',
              valueDate := Some ''2024-01-02'',
              remittanceInformationUnstructured := Some ''shop'' \<rparr>"

definition payee0 :: "transaction \<Rightarrow> fault + string" where
  "payee0 t = Inr ''Payee''"

definition format0 :: "string option \<Rightarrow> fault + string" where
  "format0 v = (case v of None \<Rightarrow> Inl RangeError | Some s \<Rightarrow> Inr (take 10 s))"

text \<open>
  The balances and booked transactions of the reconciliation example: one balance of
  1000.00, and transactions of -5.00 and 2.00 (-500 and 200 minor units).
\<close>

definition balances0 :: "balance list" where
  "balances0 = [\<lparr> balanceType = Some ''interimAvailable'',
                  balanceAmount = \<lparr> amount = ''1000.00'', currency = ''EUR'' \<rparr> \<rparr>]"

definition booked0 :: "transaction list" where
  "booked0 = [tx0\<lparr> transactionAmount := \<lparr> amount = ''-5.00'', currency = ''EUR'' \<rparr> \<rparr>,
              tx0\<lparr> transactionAmount := \<lparr> amount = ''2.00'', currency = ''EUR'' \<rparr> \<rparr>]"

text \<open>
  A mocked collaborator: requisition \<^verbatim>\<open>R1\<close> is linked with the accounts \<^verbatim>\<open>A1\<close> and
  \<^verbatim>\<open>A2\<close>, any other requisition is in the state \<^verbatim>\<open>CR\<close>; the first \<^verbatim>\<open>generateToken\<close> call
  answers \<^verbatim>\<open>t0\<close>, later ones \<^verbatim>\<open>t1\<close>.
\<close>

definition requisition0 :: requisition where
  "requisition0 = \<lparr> status_code = None, req_id = Some ''R1'', status = Some ''LN'',
                    accounts = [''A1'', ''A2''], req_institution_id = Some ''BANK'' \<rparr>"

definition account0 :: account where
  "account0 = \<lparr> acc_id = Some ''A1'', institution_id = Some ''BANK'',
                iban = None, name = None, product = None \<rparr>"

definition details0 :: accountDetails where
  "details0 = \<lparr> details_id = None, details_institution_id = None,
                details_iban = Some (Some ''DE02100100100006820101''),
                details_name = Some (Some ''Main''), details_product = Some None \<rparr>"

definition tokens0 :: "nat \<Rightarrow> tokenData" where
  "tokens0 k = \<lparr> status_code = None, access = Some (if k = 0 then ''t0'' else ''t1'') \<rparr>"

definition api0 :: aggregationClient where
  "api0 = \<lparr> client_generateToken = tokens0,
            client_getRequisitionById =
              (\<lambda>i. if i = ''R1'' then requisition0
                    else requisition0\<lparr> req_id := Some i, status := Some ''CR'' \<rparr>),
            client_getDetails = (\<lambda>a. \<lparr> status_code = None, details_account = Some details0 \<rparr>),
            client_getMetadata = (\<lambda>a. \<lparr> status_code = None, metadata = account0 \<rparr>),
            client_getInstitutionById =
              (\<lambda>i. \<lparr> status_code = None, inst_id = i, inst_name = Some ''Bank'' \<rparr>),
            client_getTransactions =
              (\<lambda>a s e. \<lparr> status_code = None,
                         transactions = Some \<lparr> booked = Some booked0, pending = Some [] \<rparr> \<rparr>),
            client_getBalances = (\<lambda>a. \<lparr> status_code = None, balances = Some balances0 \<rparr>) \<rparr>"

definition bank0 :: IBank where
  "bank0 = \<lparr> bank_normalizeAccount = normalizeAccount iban,
             bank_sortTransactions = sortTransactions Inr,
             bank_calculateStartingBalance = calculateStartingBalance amountToInteger \<rparr>"

definition client0 :: nordigenClient where
  "client0 = \<lparr> token = None, generated = 0 \<rparr>"

definition client1 :: nordigenClient where
  "client1 = \<lparr> token = Some ''t0'', generated = 1 \<rparr>"

text \<open>No caller of a list waits for a response.\<close>

definition none_awaiting :: "caller list \<Rightarrow> bool" where
  "none_awaiting cs = list_all (\<lambda>x. case x of Awaiting k \<Rightarrow> False | _ \<Rightarrow> True) cs"

section \<open>Properties\<close>

subsection \<open>Helper facts\<close>

lemma truthy_js_or: "truthy a \<or> truthy b \<Longrightarrow> truthy (js_or a b)"
  by (auto simp: js_or_def)

lemma foldl_minus_num:
  "map f txs = map Num ns \<Longrightarrow>
   foldl (\<lambda>total trans. minus_num total (f trans)) (Num v) txs = Num (v - sum_list ns)"
  by (induction txs arbitrary: v ns) auto

lemma amountToInteger_samples:
  "amountToInteger ''1000.00'' = Num 100000"
  "amountToInteger ''-5.00'' = Num (- 500)"
  "amountToInteger ''2.00'' = Num 200"
  by (simp_all add: amountToInteger_def digit_of_def)

lemma and_then_Inr: "m c = (Inr x, c') \<Longrightarrow> and_then m f c = f x c'"
  by (simp add: and_then_def)

lemma and_then_Inl: "m c = (Inl e, c') \<Longrightarrow> and_then m f c = (Inl e, c')"
  by (simp add: and_then_def)

lemma getLinkedRequisition_cases:
  "getRequisition api rid c = (Inr r, c') \<Longrightarrow>
   getLinkedRequisition api rid c =
     (if status r \<noteq> Some ''LN'' then (Inl (RequisitionNotLinked (status r)), c') else (Inr r, c'))"
  by (simp add: getLinkedRequisition_def and_then_Inr finish_def)

lemma getRequisition_api0:
  "getRequisition api0 rid client0 = (Inr (client_getRequisitionById api0 rid), client1)"
  by (simp add: getRequisition_def and_then_def setToken_def client0_def client1_def api0_def
      tokens0_def truthy_def handleNordigenError_def finish_def attempt_def requisition0_def Let_def)

text \<open>
  The default adapter keeps a transaction whose only date field is \<^verbatim>\<open>bookingDateTime\<close>,
  and the date it returns, read from \<^verbatim>\<open>bookingDate || valueDate\<close>, is undefined.
\<close>

lemma default_keeps_bookingDateTime_only:
  "map_option date (normalizeTransaction (tx0\<lparr> bookingDateTime := Some ''2024-01-01T10:00:00Z'' \<rparr>))
     = Some None"
  by (simp add: normalizeTransaction_def tx0_def js_or_def truthy_def append_additional_def
      remittance_of_def)

text \<open>
  With a remittance text chosen, the default adapter appends a truthy
  \<^verbatim>\<open>additionalInformation\<close> after one space and nothing otherwise.
\<close>

lemma remittance_when_chosen:
  assumes "normalizeTransaction t = Some n" and "remittance_of t = Some r"
  shows "remittanceInformationUnstructured (spread n) =
           Some (if truthy (additionalInformation t)
                 then r @ '' '' @ the (additionalInformation t) else r)"
proof -
  have "to_string (additionalInformation t) = the (additionalInformation t)"
    if "truthy (additionalInformation t)"
    using that by (cases "additionalInformation t") (simp_all add: truthy_def to_string_def)
  with assms show ?thesis
    by (auto simp: normalizeTransaction_def Let_def append_additional_def to_string_def
        split: if_splits)
qed

text \<open>Neither the error mapping nor an adapter's fault is the linkage error.\<close>

lemma handleNordigenError_not_linkage:
  "handleNordigenError r \<noteq> Inl (AccountNotLinedToRequisition x y)"
  by (simp add: handleNordigenError_def split: option.splits jsval.splits)

lemma of_fault_not_linkage: "of_fault r \<noteq> Inl (AccountNotLinedToRequisition x y)"
  by (simp add: of_fault_def split: sum.splits)

lemma attempt_not_linkage:
  "r \<noteq> Inl (AccountNotLinedToRequisition x y) \<Longrightarrow>
   (\<And>v. f v \<noteq> Inl (AccountNotLinedToRequisition x y)) \<Longrightarrow>
   attempt r f \<noteq> Inl (AccountNotLinedToRequisition x y)"
  by (cases r) (auto simp: attempt_def)

lemma getTransactions_not_linkage:
  "getTransactions api a s e \<noteq> Inl (AccountNotLinedToRequisition x y)"
  unfolding getTransactions_def Let_def
  by (rule attempt_not_linkage) (simp_all add: handleNordigenError_not_linkage)

lemma getBalances_not_linkage:
  "getBalances api a \<noteq> Inl (AccountNotLinedToRequisition x y)"
  unfolding getBalances_def Let_def
  by (rule attempt_not_linkage) (simp_all add: handleNordigenError_not_linkage)

lemma getTransactionsWithBalance_member:
  assumes "getLinkedRequisition api rid c = (Inr r, c')" and "a \<in> set (accounts r)"
  shows "fst (getTransactionsWithBalance api BankFactory rid a s e c)
           \<noteq> Inl (AccountNotLinedToRequisition x y)"
proof -
  have "fst (getTransactionsWithBalance api BankFactory rid a s e c) =
            attempt (getTransactions api a s e) (\<lambda>trs.
            attempt (getBalances api a) (\<lambda>accountBalance.
            attempt (of_fault (bank_sortTransactions (BankFactory (req_institution_id r))
                      (case transactions trs of None \<Rightarrow> None | Some t \<Rightarrow> booked t)))
                 (\<lambda>sortedBookedTransactions.
               attempt (of_fault (bank_sortTransactions (BankFactory (req_institution_id r))
                      (case transactions trs of None \<Rightarrow> None | Some t \<Rightarrow> pending t)))
                 (\<lambda>sortedPendingTransactions.
               attempt (of_fault (bank_calculateStartingBalance (BankFactory (req_institution_id r))
                      (Some sortedBookedTransactions) (balances accountBalance)))
                 (\<lambda>startingBalance.
               Inr \<lparr> r_balances = balances accountBalance,
                     r_institutionId = req_institution_id r,
                     r_startingBalance = startingBalance,
                     r_booked = sortedBookedTransactions,
                     r_pending = sortedPendingTransactions \<rparr>)))))"
    using assms by (simp add: getTransactionsWithBalance_def and_then_Inr finish_def Let_def)
  also have "\<dots> \<noteq> Inl (AccountNotLinedToRequisition x y)"
    by (intro attempt_not_linkage getTransactions_not_linkage getBalances_not_linkage
        of_fault_not_linkage) simp
  finally show ?thesis .
qed

text \<open>Runs of the interleaving model.\<close>

lemma run_snoc: "run api w (evs @ [e]) = step api (run api w evs) e"
  by (simp add: run_def)

lemma run_Cons: "run api w (e # evs) = run api (step api w e) evs"
  by (simp add: run_def)

lemma run_Nil: "run api w [] = w"
  by (simp add: run_def)

lemma calls_before_resume:
  assumes "\<not> truthy (token c)"
  shows "m \<le> n \<Longrightarrow>
     run api (start c n) (map Call [0..<m]) =
       \<lparr> client = c\<lparr> generated := generated c + m \<rparr>,
         callers = map Awaiting [generated c..<generated c + m] @ replicate (n - m) NotCalled \<rparr>"
proof (induction m)
  case 0
  then show ?case by (simp add: run_Nil start_def)
next
  case (Suc m)
  then have ih: "run api (start c n) (map Call [0..<m]) =
       \<lparr> client = c\<lparr> generated := generated c + m \<rparr>,
         callers = map Awaiting [generated c..<generated c + m] @ replicate (n - m) NotCalled \<rparr>"
    by simp
  from Suc.prems obtain k where k: "n - m = Suc k" and k': "n - Suc m = k"
    by (metis Suc_diff_Suc Suc_le_lessD)
  have "run api (start c n) (map Call [0..<Suc m])
          = step api (run api (start c n) (map Call [0..<m])) (Call m)"
    by (simp add: run_snoc)
  also have "\<dots> = \<lparr> client = c\<lparr> generated := generated c + Suc m \<rparr>,
         callers = map Awaiting [generated c..<generated c + Suc m]
                     @ replicate (n - Suc m) NotCalled \<rparr>"
    using assms by (simp add: ih k k' nth_append list_update_append)
  finally show ?case .
qed

lemma step_cached:
  assumes "truthy (token (client w))" and "none_awaiting (callers w)"
  shows "client (step api w e) = client w \<and> none_awaiting (callers (step api w e))"
proof (cases e)
  case (Call i)
  have "none_awaiting ((callers w)[i := Returned])"
    using assms(2) unfolding none_awaiting_def list_all_iff
    by (auto dest!: set_update_subset_insert [THEN subsetD])
  with assms Call show ?thesis by simp
next
  case (Resume i)
  show ?thesis
  proof (cases "i < length (callers w)")
    case True
    then have "callers w ! i \<in> set (callers w)" by simp
    with assms(2) have "\<And>k. callers w ! i \<noteq> Awaiting k"
      unfolding none_awaiting_def list_all_iff by (auto split: caller.splits)
    with assms Resume True show ?thesis by (simp split: caller.splits)
  next
    case False
    with assms Resume show ?thesis by simp
  qed
qed

lemma run_cached:
  "truthy (token (client w)) \<Longrightarrow> none_awaiting (callers w) \<Longrightarrow> client (run api w evs) = client w"
proof (induction evs arbitrary: w)
  case Nil
  then show ?case by (simp add: run_Nil)
next
  case (Cons e evs)
  from step_cached [OF Cons.prems, of api e]
  have "client (step api w e) = client w" and "none_awaiting (callers (step api w e))" by simp_all
  with Cons.IH [of "step api w e"] Cons.prems show ?case by (simp add: run_Cons)
qed

lemma call_resume_is_setToken:
  "client (run api (start c 1) [Call 0, Resume 0]) = snd (setToken api c)"
  by (simp add: run_Cons run_Nil start_def setToken_def Let_def split: sum.splits)

lemma run_append: "run api w (as @ bs) = run api (run api w as) bs"
  by (simp add: run_def)

lemma awaiting_upt: "map Awaiting [g..<g + n] = map (\<lambda>j. Awaiting (g + j)) [0..<n]"
proof -
  have "[g..<g + n] = map (\<lambda>j. g + j) [0..<n]"
    by (rule nth_equalityI) simp_all
  then show ?thesis by simp
qed

lemma mark_returned:
  assumes "j < n"
  shows "(map (\<lambda>i. if i \<in> set js then Returned else Awaiting (g + i)) [0..<n])[j := Returned]
         = map (\<lambda>i. if i \<in> set (js @ [j]) then Returned else Awaiting (g + i)) [0..<n]"
  using assms by (intro nth_equalityI) (auto simp: nth_list_update)

lemma resumes_after_calls:
  assumes "\<forall>j\<in>set js. j < n \<and> handleNordigenError (client_generateToken api (g + j)) = Inr ()"
    and "distinct js"
  shows "run api \<lparr> client = c0, callers = map Awaiting [g..<g + n] \<rparr> (map Resume js) =
     \<lparr> client = c0\<lparr> token := (if js = [] then token c0
                               else access (client_generateToken api (g + last js))) \<rparr>,
       callers = map (\<lambda>i. if i \<in> set js then Returned else Awaiting (g + i)) [0..<n] \<rparr>"
  using assms
proof (induction js rule: rev_induct)
  case Nil
  then show ?case by (simp add: run_Nil awaiting_upt)
next
  case (snoc j js)
  then have ih: "run api \<lparr> client = c0, callers = map Awaiting [g..<g + n] \<rparr> (map Resume js) =
     \<lparr> client = c0\<lparr> token := (if js = [] then token c0
                               else access (client_generateToken api (g + last js))) \<rparr>,
       callers = map (\<lambda>i. if i \<in> set js then Returned else Awaiting (g + i)) [0..<n] \<rparr>"
    by simp
  from snoc.prems have j: "j < n" "j \<notin> set js"
    and ok: "handleNordigenError (client_generateToken api (g + j)) = Inr ()"
    by simp_all
  have "run api \<lparr> client = c0, callers = map Awaiting [g..<g + n] \<rparr> (map Resume (js @ [j]))
      = step api (run api \<lparr> client = c0, callers = map Awaiting [g..<g + n] \<rparr> (map Resume js))
          (Resume j)"
    by (simp add: run_snoc)
  also have "\<dots> = \<lparr> client = c0\<lparr> token := access (client_generateToken api (g + j)) \<rparr>,
       callers = map (\<lambda>i. if i \<in> set (js @ [j]) then Returned else Awaiting (g + i)) [0..<n] \<rparr>"
    using j ok mark_returned [OF j(1), of js g] by (simp add: ih)
  finally show ?case by simp
qed

lemma resume_stores_own:
  assumes "i < length (callers w)" and "callers w ! i = Awaiting k"
  shows "client (step api w (Resume i)) =
           (case handleNordigenError (client_generateToken api k) of
              Inl e \<Rightarrow> client w
            | Inr u \<Rightarrow> (client w)\<lparr> token := access (client_generateToken api k) \<rparr>)"
  using assms by (simp add: Let_def split: sum.splits)

lemma setToken_generated:
  "generated (snd (setToken api c)) = (if truthy (token c) then generated c else Suc (generated c))"
  by (simp add: setToken_def Let_def split: sum.splits)

subsection \<open>Dates of kept transactions\<close>

text \<open>
  C1 (as stated). Every transaction a \<^verbatim>\<open>normalizeTransaction\<close> returns has a non-null
  date. This fails: the NORDEA_NDEADKKK adapter has no date guard and returns a
  transaction without \<^verbatim>\<open>bookingDate\<close> and \<^verbatim>\<open>valueDate\<close> with \<^verbatim>\<open>date\<close> undefined.
\<close>

theorem kept_without_date_counterexample:
  "nordea_normalizeTransaction payee0 (tx0\<lparr> transactionId := Some ''T1'' \<rparr>)
     = Inr (Some \<lparr> spread = tx0\<lparr> transactionId := Some ''T1'' \<rparr>, date = None,
                   payeeName = Some ''Payee'' \<rparr>)"
  by (simp add: nordea_normalizeTransaction_def payee0_def tx0_def startsWith_def js_or_def
      truthy_def)

text \<open>
  C1 (amended). When \<^verbatim>\<open>bookingDate\<close> or \<^verbatim>\<open>valueDate\<close> is truthy, the default adapter keeps
  the transaction with a non-empty date, which is \<^verbatim>\<open>bookingDate\<close> when that is truthy.
  A transaction that the NORDEA_NDEADKKK or the BELFIUS_GKCCBEBB
  \<^verbatim>\<open>normalizeTransaction\<close> returns has the date \<^verbatim>\<open>bookingDate || valueDate\<close>, a non-empty
  string when one of the two is truthy. A transaction that the ENTERCARD_SWEDNOKK
  \<^verbatim>\<open>normalizeTransaction\<close> returns has the formatted \<^verbatim>\<open>valueDate\<close> as its date.
\<close>

theorem kept_date:
  "(truthy (bookingDate t) \<or> truthy (valueDate t) \<longrightarrow>
      (\<exists>n. normalizeTransaction t = Some n \<and> truthy (date n)
           \<and> (truthy (bookingDate t) \<longrightarrow> date n = bookingDate t)))
   \<and> (\<forall>n. nordea_normalizeTransaction formatPayeeName t = Inr (Some n) \<longrightarrow>
          date n = js_or (bookingDate t) (valueDate t)
          \<and> (truthy (bookingDate t) \<or> truthy (valueDate t) \<longrightarrow> truthy (date n)))
   \<and> (\<exists>n. belfius_normalizeTransaction t = Some n
          \<and> date n = js_or (bookingDate t) (valueDate t)
          \<and> (truthy (bookingDate t) \<or> truthy (valueDate t) \<longrightarrow> truthy (date n)))
   \<and> (\<forall>t' n. entercard_normalizeTransaction formatPayeeName formatDate t = (t', Inr (Some n)) \<longrightarrow>
          (\<exists>d. formatDate (valueDate t) = Inr d \<and> date n = Some d))"
proof -
  have d: "truthy (bookingDate t) \<or> truthy (valueDate t) \<Longrightarrow> truthy (js_or (bookingDate t) (valueDate t))"
    by (rule truthy_js_or)
  have g: "truthy (js_or (js_or (js_or (bookingDate t) (bookingDateTime t)) (valueDate t)) (valueDateTime t))"
    if "truthy (bookingDate t) \<or> truthy (valueDate t)"
    using that by (auto simp: js_or_def)
  have a: "truthy (bookingDate t) \<or> truthy (valueDate t) \<longrightarrow>
      (\<exists>n. normalizeTransaction t = Some n \<and> truthy (date n)
           \<and> (truthy (bookingDate t) \<longrightarrow> date n = bookingDate t))"
  proof
    assume h: "truthy (bookingDate t) \<or> truthy (valueDate t)"
    from g [OF h] d [OF h] show "\<exists>n. normalizeTransaction t = Some n \<and> truthy (date n)
           \<and> (truthy (bookingDate t) \<longrightarrow> date n = bookingDate t)"
      by (simp add: normalizeTransaction_def Let_def) (simp add: js_or_def)
  qed
  have b: "\<forall>n. nordea_normalizeTransaction formatPayeeName t = Inr (Some n) \<longrightarrow>
          date n = js_or (bookingDate t) (valueDate t)
          \<and> (truthy (bookingDate t) \<or> truthy (valueDate t) \<longrightarrow> truthy (date n))"
    using d by (auto simp: nordea_normalizeTransaction_def split: option.splits if_splits sum.splits)
  have c: "\<exists>n. belfius_normalizeTransaction t = Some n
          \<and> date n = js_or (bookingDate t) (valueDate t)
          \<and> (truthy (bookingDate t) \<or> truthy (valueDate t) \<longrightarrow> truthy (date n))"
    using d by (auto simp: belfius_normalizeTransaction_def)
  have e: "\<forall>t' n. entercard_normalizeTransaction formatPayeeName formatDate t = (t', Inr (Some n)) \<longrightarrow>
          (\<exists>d. formatDate (valueDate t) = Inr d \<and> date n = Some d)"
    by (auto simp: entercard_normalizeTransaction_def Let_def split: option.splits sum.splits if_splits)
  from a b c e show ?thesis by blast
qed

theorem kept_date_witness:
  "truthy (bookingDate tx1)
   \<and> map_option date (normalizeTransaction tx1) = Some (Some ''2024-01-01'')
   \<and> map_sum id (map_option date) (nordea_normalizeTransaction payee0 tx1)
       = Inr (Some (Some ''2024-01-01''))
   \<and> map_option date (belfius_normalizeTransaction tx1) = Some (Some ''2024-01-01'')
   \<and> map_sum id (map_option date) (snd (entercard_normalizeTransaction payee0 format0 tx1))
       = Inr (Some (Some ''2024-01-02''))
   \<and> format0 (valueDate tx1) = Inr ''2024-01-02''"
proof -
  have n: "nordea_normalizeTransaction payee0 tx1
     = Inr (Some \<lparr> spread = tx1, date = Some ''2024-01-01'', payeeName = Some ''Payee'' \<rparr>)"
    by (simp add: nordea_normalizeTransaction_def payee0_def tx1_def tx0_def startsWith_def
        js_or_def truthy_def)
  have e: "entercard_normalizeTransaction payee0 format0 tx1
     = (tx1, Inr (Some \<lparr> spread = tx1, date = Some ''2024-01-02'', payeeName = Some ''Payee'' \<rparr>))"
    by (simp add: entercard_normalizeTransaction_def payee0_def format0_def tx1_def tx0_def
        startsWith_def Let_def)
  have t: "truthy (bookingDate tx1)" "bookingDate tx1 = Some ''2024-01-01''"
    by (simp_all add: tx1_def tx0_def truthy_def)
  have f: "format0 (valueDate tx1) = Inr ''2024-01-02''"
    by (simp add: format0_def tx1_def tx0_def)
  from kept_date [of tx1 payee0 format0] t n e f show ?thesis
    by (auto simp: js_or_def)
qed

subsection \<open>Purity of the normalizers\<close>

text \<open>
  C2 (as stated). No \<^verbatim>\<open>normalizeTransaction\<close> modifies the raw transaction it is given.
  This fails for the ENTERCARD_SWEDNOKK adapter: a transaction whose remittance text
  starts with \<^verbatim>\<open>billingAmount: \<close> leaves the call with another \<^verbatim>\<open>transactionAmount\<close>.
\<close>

theorem entercard_mutates_counterexample:
  "fst (entercard_normalizeTransaction payee0 format0
          (tx0\<lparr> remittanceInformationUnstructured := Some ''billingAmount: 12.34'',
                valueDate := Some ''2024-01-01'' \<rparr>))
     \<noteq> tx0\<lparr> remittanceInformationUnstructured := Some ''billingAmount: 12.34'',
             valueDate := Some ''2024-01-01'' \<rparr>"
  by (simp add: entercard_normalizeTransaction_def tx0_def startsWith_def substring_def Let_def)

text \<open>
  C2 (amended). The ENTERCARD_SWEDNOKK \<^verbatim>\<open>normalizeTransaction\<close> writes to its argument and
  to nothing else: it changes no field but \<^verbatim>\<open>transactionAmount\<close>, and it changes that one
  exactly when the remittance text starts with \<^verbatim>\<open>billingAmount: \<close> and the amount is not
  already the billed amount in SEK. Called again on the object it has left, it returns
  the same result and changes nothing more. (The default \<^verbatim>\<open>normalizeAccount\<close> and
  \<^verbatim>\<open>normalizeTransaction\<close> contain no assignment to their argument; they are functions of
  it.)
\<close>

theorem entercard_effect:
  "entercard_normalizeTransaction fp fd (fst (entercard_normalizeTransaction fp fd t))
     = entercard_normalizeTransaction fp fd t
   \<and> (fst (entercard_normalizeTransaction fp fd t))\<lparr> transactionAmount := transactionAmount t \<rparr> = t
   \<and> (fst (entercard_normalizeTransaction fp fd t) \<noteq> t) =
       (\<exists>r. remittanceInformationUnstructured t = Some r \<and> startsWith r ''billingAmount: ''
            \<and> transactionAmount t \<noteq> \<lparr> amount = substring r 15, currency = ''SEK'' \<rparr>)"
  apply (cases "remittanceInformationUnstructured t")
   apply (simp add: entercard_normalizeTransaction_def)
  apply (simp add: entercard_normalizeTransaction_def Let_def)
  apply (cases t)
  apply auto
  done

subsection \<open>Starting balance\<close>

text \<open>
  C3. When the balances hold an entry of type \<^verbatim>\<open>interimAvailable\<close> (\<^verbatim>\<open>find\<close> takes the
  first one) and every amount is a decimal string, so that \<^verbatim>\<open>amountToInteger\<close> gives an
  integer for each, the default \<^verbatim>\<open>calculateStartingBalance\<close> (and the identical one of the
  NORDEA_NDEADKKK file) returns that balance's amount in minor units minus the sum of
  the booked transactions' amounts in minor units. The witness is the example of the
  spec: a balance of 1000.00 and transactions of -500 and 200 minor units give 100300.
\<close>

theorem calculateStartingBalance_arithmetic:
  assumes "find (\<lambda>balance. Some ''interimAvailable'' = balanceType balance) bs = Some currentBalance"
    and "amountToInt (amount (balanceAmount currentBalance)) = Num v"
    and "map (\<lambda>trans. amountToInt (amount (transactionAmount trans))) txs = map Num ns"
  shows "calculateStartingBalance amountToInt (Some txs) (Some bs) = Inr (Num (v - sum_list ns))
       \<and> nordea_calculateStartingBalance amountToInt (Some txs) (Some bs)
           = Inr (Num (v - sum_list ns))"
  using assms foldl_minus_num [of "\<lambda>trans. amountToInt (amount (transactionAmount trans))" txs ns v]
  by (simp add: calculateStartingBalance_def nordea_calculateStartingBalance_def or_empty_def)

theorem calculateStartingBalance_arithmetic_witness:
  "find (\<lambda>balance. Some ''interimAvailable'' = balanceType balance) balances0 = Some (hd balances0)
   \<and> amountToInteger (amount (balanceAmount (hd balances0))) = Num 100000
   \<and> map (\<lambda>trans. amountToInteger (amount (transactionAmount trans))) booked0 = map Num [- 500, 200]
   \<and> calculateStartingBalance amountToInteger (Some booked0) (Some balances0) = Inr (Num 100300)
   \<and> nordea_calculateStartingBalance amountToInteger (Some booked0) (Some balances0)
       = Inr (Num 100300)"
proof -
  have f: "find (\<lambda>balance. Some ''interimAvailable'' = balanceType balance) balances0
             = Some (hd balances0)"
    by (simp add: balances0_def)
  have a: "amountToInteger (amount (balanceAmount (hd balances0))) = Num 100000"
    by (simp add: balances0_def amountToInteger_samples)
  have m: "map (\<lambda>trans. amountToInteger (amount (transactionAmount trans))) booked0
             = map Num [- 500, 200]"
    by (simp add: booked0_def amountToInteger_samples)
  from calculateStartingBalance_arithmetic [OF f a m] f a m show ?thesis by simp
qed

text \<open>
  C10. The default \<^verbatim>\<open>calculateStartingBalance\<close> (and the identical one of the
  NORDEA_NDEADKKK file) throws the TypeError of reading a field of the absent lookup
  result exactly when no balance has the type \<^verbatim>\<open>interimAvailable\<close>, whatever the
  transactions are; it returns a number exactly when some balance has that type.
\<close>

theorem calculateStartingBalance_total_iff:
  "(calculateStartingBalance amountToInt txs bs = Inl TypeError) =
     (\<not> (\<exists>b \<in> set (or_empty bs). balanceType b = Some ''interimAvailable''))
   \<and> (\<exists>v. calculateStartingBalance amountToInt txs bs = Inr v) =
     (\<exists>b \<in> set (or_empty bs). balanceType b = Some ''interimAvailable'')
   \<and> (nordea_calculateStartingBalance amountToInt txs bs = Inl TypeError) =
     (\<not> (\<exists>b \<in> set (or_empty bs). balanceType b = Some ''interimAvailable''))
   \<and> (\<exists>v. nordea_calculateStartingBalance amountToInt txs bs = Inr v) =
     (\<exists>b \<in> set (or_empty bs). balanceType b = Some ''interimAvailable'')"
proof -
  let ?P = "\<lambda>balance. Some ''interimAvailable'' = balanceType balance"
  show ?thesis
  proof (cases "find ?P (or_empty bs)")
    case None
    then have "\<not> (\<exists>b \<in> set (or_empty bs). balanceType b = Some ''interimAvailable'')"
      by (auto simp: find_None_iff)
    with None show ?thesis
      by (simp add: calculateStartingBalance_def nordea_calculateStartingBalance_def)
  next
    case (Some cb)
    then have "\<exists>b \<in> set (or_empty bs). balanceType b = Some ''interimAvailable''"
      by (auto simp: find_Some_iff)
    with Some show ?thesis
      by (simp add: calculateStartingBalance_def nordea_calculateStartingBalance_def)
  qed
qed

subsection \<open>Dropped and kept records\<close>

text \<open>
  C4. For a \<^verbatim>\<open>transactionId\<close> that starts with \<^verbatim>\<open>P\<close> the NORDEA_NDEADKKK
  \<^verbatim>\<open>normalizeTransaction\<close> should return null. The code throws a ReferenceError there:
  its statement is \<^verbatim>\<open>return {Null};\<close>, and it does not return null.
\<close>

theorem nordea_placeholder_throws:
  "nordea_normalizeTransaction formatPayeeName
      (transaction\<lparr> transactionId := Some (CHR ''P'' # rest) \<rparr>) = Inl ReferenceError
   \<and> nordea_normalizeTransaction formatPayeeName
      (transaction\<lparr> transactionId := Some (CHR ''P'' # rest) \<rparr>) \<noteq> Inr None"
  by (simp add: nordea_normalizeTransaction_def startsWith_def)

text \<open>
  C5. The remittance text of a kept transaction should be the first of the three
  remittance fields that is there, with \<^verbatim>\<open>additionalInformation\<close> appended after a space.
  For a transaction with none of the three fields and \<^verbatim>\<open>additionalInformation = 'info'\<close>
  the code gives \<^verbatim>\<open>'undefined info'\<close>: the \<^verbatim>\<open>+=\<close> is applied to a variable that was never
  assigned.
\<close>

theorem remittance_undefined_prefix:
  "map_option (\<lambda>n. remittanceInformationUnstructured (spread n))
     (normalizeTransaction (tx0\<lparr> bookingDate := Some ''2024-01-01'',
                                additionalInformation := Some ''info'' \<rparr>))
   = Some (Some ''undefined info'')"
  by (simp add: normalizeTransaction_def tx0_def js_or_def truthy_def append_additional_def
      remittance_of_def to_string_def)

subsection \<open>The guards of the service\<close>

text \<open>
  C7. When the requisition that \<^verbatim>\<open>getRequisition\<close> fetches has a status other than
  \<^verbatim>\<open>LN\<close>, each of \<^verbatim>\<open>getLinkedRequisition\<close>, \<^verbatim>\<open>getRequisitionWithAccounts\<close> and
  \<^verbatim>\<open>getTransactionsWithBalance\<close> throws \<^verbatim>\<open>RequisitionNotLinked\<close>; when the status is
  \<^verbatim>\<open>LN\<close>, \<^verbatim>\<open>getLinkedRequisition\<close> returns the requisition as fetched.
\<close>

theorem link_status_guard:
  assumes "getRequisition api requisitionId c = (Inr r, c')"
  shows "(status r \<noteq> Some ''LN'' \<longrightarrow>
            getLinkedRequisition api requisitionId c = (Inl (RequisitionNotLinked (status r)), c')
          \<and> getRequisitionWithAccounts api BankFactory requisitionId c
              = (Inl (RequisitionNotLinked (status r)), c')
          \<and> getTransactionsWithBalance api BankFactory requisitionId accountId startDate endDate c
              = (Inl (RequisitionNotLinked (status r)), c'))
       \<and> (status r = Some ''LN'' \<longrightarrow> getLinkedRequisition api requisitionId c = (Inr r, c'))"
  using getLinkedRequisition_cases [OF assms]
  by (simp add: getRequisitionWithAccounts_def getTransactionsWithBalance_def and_then_Inl)

theorem link_status_guard_witness:
  "getRequisition api0 ''R2'' client0
     = (Inr (requisition0\<lparr> req_id := Some ''R2'', status := Some ''CR'' \<rparr>), client1)
   \<and> getTransactionsWithBalance api0 (\<lambda>i. bank0) ''R2'' ''A1'' ''2024-01-01'' ''2024-01-31'' client0
     = (Inl (RequisitionNotLinked (Some ''CR'')), client1)
   \<and> getRequisitionWithAccounts api0 (\<lambda>i. bank0) ''R2'' client0
     = (Inl (RequisitionNotLinked (Some ''CR'')), client1)
   \<and> getLinkedRequisition api0 ''R2'' client0
     = (Inl (RequisitionNotLinked (Some ''CR'')), client1)
   \<and> getRequisition api0 ''R1'' client0 = (Inr requisition0, client1)
   \<and> getLinkedRequisition api0 ''R1'' client0 = (Inr requisition0, client1)"
proof -
  have a: "getRequisition api0 ''R2'' client0
     = (Inr (requisition0\<lparr> req_id := Some ''R2'', status := Some ''CR'' \<rparr>), client1)"
    by (simp add: getRequisition_api0) (simp add: api0_def)
  have b: "getRequisition api0 ''R1'' client0 = (Inr requisition0, client1)"
    by (simp add: getRequisition_api0) (simp add: api0_def)
  from link_status_guard [OF a, of "\<lambda>i. bank0" "''A1''" "''2024-01-01''" "''2024-01-31''"]
       link_status_guard [OF b, of "\<lambda>i. bank0" "''A1''" "''2024-01-01''" "''2024-01-31''"] a b
  show ?thesis by (simp add: requisition0_def)
qed

text \<open>
  C8. For a linked requisition, \<^verbatim>\<open>getTransactionsWithBalance\<close> throws
  \<^verbatim>\<open>AccountNotLinedToRequisition\<close> exactly when \<^verbatim>\<open>accountId\<close> is not in the requisition's
  account list, and then with this account and requisition. When the account is in the
  list the operation goes on to the two fetches: an error of the transactions fetch, or
  of the balances fetch after a good transactions fetch, is what it throws.
\<close>

theorem linkage_guard:
  assumes "getLinkedRequisition api requisitionId c = (Inr r, c')"
  shows "((\<exists>x y. fst (getTransactionsWithBalance api BankFactory requisitionId accountId
                      startDate endDate c)
              = Inl (AccountNotLinedToRequisition x y))
           = (accountId \<notin> set (accounts r)))
       \<and> (accountId \<notin> set (accounts r) \<longrightarrow>
            getTransactionsWithBalance api BankFactory requisitionId accountId startDate endDate c
              = (Inl (AccountNotLinedToRequisition accountId requisitionId), c'))
       \<and> (accountId \<in> set (accounts r) \<longrightarrow>
            (\<forall>err. getTransactions api accountId startDate endDate = Inl err \<longrightarrow>
               getTransactionsWithBalance api BankFactory requisitionId accountId startDate endDate c
                 = (Inl err, c'))
          \<and> (\<forall>trs err. getTransactions api accountId startDate endDate = Inr trs
                 \<and> getBalances api accountId = Inl err \<longrightarrow>
               getTransactionsWithBalance api BankFactory requisitionId accountId startDate endDate c
                 = (Inl err, c')))"
proof -
  have 2: "accountId \<notin> set (accounts r) \<longrightarrow>
            getTransactionsWithBalance api BankFactory requisitionId accountId startDate endDate c
              = (Inl (AccountNotLinedToRequisition accountId requisitionId), c')"
    using assms by (simp add: getTransactionsWithBalance_def and_then_Inr finish_def)
  have 1: "(\<exists>x y. fst (getTransactionsWithBalance api BankFactory requisitionId accountId
                      startDate endDate c)
              = Inl (AccountNotLinedToRequisition x y))
           = (accountId \<notin> set (accounts r))"
  proof (cases "accountId \<in> set (accounts r)")
    case True
    with getTransactionsWithBalance_member [OF assms True] show ?thesis by simp
  next
    case False
    with 2 show ?thesis by simp
  qed
  have 3: "accountId \<in> set (accounts r) \<longrightarrow>
            (\<forall>err. getTransactions api accountId startDate endDate = Inl err \<longrightarrow>
               getTransactionsWithBalance api BankFactory requisitionId accountId startDate endDate c
                 = (Inl err, c'))
          \<and> (\<forall>trs err. getTransactions api accountId startDate endDate = Inr trs
                 \<and> getBalances api accountId = Inl err \<longrightarrow>
               getTransactionsWithBalance api BankFactory requisitionId accountId startDate endDate c
                 = (Inl err, c'))"
    using assms
    by (simp add: getTransactionsWithBalance_def and_then_Inr finish_def attempt_def)
  from 1 2 3 show ?thesis by blast
qed

theorem linkage_guard_witness:
  "getLinkedRequisition api0 ''R1'' client0 = (Inr requisition0, client1)
   \<and> ''A3'' \<notin> set (accounts requisition0)
   \<and> getTransactionsWithBalance api0 (\<lambda>i. bank0) ''R1'' ''A3'' ''2024-01-01'' ''2024-01-31'' client0
       = (Inl (AccountNotLinedToRequisition ''A3'' ''R1''), client1)
   \<and> ''A1'' \<in> set (accounts requisition0)
   \<and> fst (getTransactionsWithBalance api0 (\<lambda>i. bank0) ''R1'' ''A1'' ''2024-01-01'' ''2024-01-31'' client0)
       \<noteq> Inl (AccountNotLinedToRequisition ''A1'' ''R1'')
   \<and> map_sum id r_startingBalance
        (fst (getTransactionsWithBalance api0 (\<lambda>i. bank0) ''R1'' ''A1'' ''2024-01-01'' ''2024-01-31''
                client0))
       = Inr (Num 100300)"
proof -
  have g: "getRequisition api0 ''R1'' client0 = (Inr requisition0, client1)"
    by (simp add: getRequisition_api0) (simp add: api0_def)
  have l: "getLinkedRequisition api0 ''R1'' client0 = (Inr requisition0, client1)"
    using getLinkedRequisition_cases [OF g] by (simp add: requisition0_def)
  have t: "getTransactions api0 ''A1'' ''2024-01-01'' ''2024-01-31''
             = Inr \<lparr> status_code = None,
                     transactions = Some \<lparr> booked = Some booked0, pending = Some [] \<rparr> \<rparr>"
    by (simp add: getTransactions_def api0_def handleNordigenError_def attempt_def)
  have b: "getBalances api0 ''A1'' = Inr \<lparr> status_code = None, balances = Some balances0 \<rparr>"
    by (simp add: getBalances_def api0_def handleNordigenError_def attempt_def)
  have s: "calculateStartingBalance amountToInteger (Some booked0) (Some balances0)
             = Inr (Num 100300)"
    by (simp add: calculateStartingBalance_def or_empty_def balances0_def booked0_def
        amountToInteger_samples)
  have v: "map_sum id r_startingBalance
        (fst (getTransactionsWithBalance api0 (\<lambda>i. bank0) ''R1'' ''A1'' ''2024-01-01'' ''2024-01-31''
                client0))
       = Inr (Num 100300)"
    using l
    by (simp add: getTransactionsWithBalance_def and_then_Inr finish_def t b s attempt_def
        of_fault_def bank0_def sortTransactions_def or_empty_def requisition0_def)
  have m: "''A3'' \<notin> set (accounts requisition0)" "''A1'' \<in> set (accounts requisition0)"
    by (simp_all add: requisition0_def)
  from linkage_guard [OF l, of "\<lambda>i. bank0" "''A3''" "''2024-01-01''" "''2024-01-31''"]
       linkage_guard [OF l, of "\<lambda>i. bank0" "''A1''" "''2024-01-01''" "''2024-01-31''"]
       l m v
  show ?thesis by simp
qed

subsection \<open>The access token\<close>

text \<open>
  C9 (as stated). N overlapping first calls issue one \<^verbatim>\<open>generateToken\<close> call and all see
  the same token. This fails: of two callers that both test the token before either
  response has arrived, each issues its own \<^verbatim>\<open>generateToken\<close> call, and the token stored by
  the first (\<^verbatim>\<open>t0\<close>) is replaced by the second's (\<^verbatim>\<open>t1\<close>).
\<close>

theorem single_flight_counterexample:
  "generated (client (run api0 (start client0 2) [Call 0, Call 1, Resume 0, Resume 1])) = 2
   \<and> token (client (run api0 (start client0 2) [Call 0, Call 1, Resume 0])) = Some ''t0''
   \<and> token (client (run api0 (start client0 2) [Call 0, Call 1, Resume 0, Resume 1])) = Some ''t1''"
  by (simp add: run_Cons run_Nil start_def client0_def api0_def tokens0_def truthy_def
      handleNordigenError_def numeral_2_eq_2)

text \<open>
  C9 (amended). A call of \<^verbatim>\<open>setToken\<close> that starts while no truthy token is stored issues
  a \<^verbatim>\<open>generateToken\<close> call of its own: \<open>n\<close> calls that start before any response arrives
  issue \<open>n\<close> fetches, each waiting for its own response. A waiting call that resumes
  stores the \<^verbatim>\<open>access\<close> of its own response when that passes the error mapping, and
  leaves the client as it is otherwise; so after any of the \<open>n\<close> overlapping calls have
  resumed, in any order and all with good responses, the token is the \<^verbatim>\<open>access\<close> of the
  response that arrived last. Once a truthy token is stored and no call is waiting, \<^verbatim>\<open>setToken\<close> issues
  no fetch and leaves the client as it is, in every interleaving of any number of calls.
  A call that runs alone is the sequential \<^verbatim>\<open>setToken\<close>, which issues one fetch when the
  token is falsy and none otherwise.
\<close>

theorem setToken_fetches:
  "(\<not> truthy (token c) \<longrightarrow>
      generated (client (run api (start c n) (map Call [0..<n]))) = generated c + n
      \<and> callers (run api (start c n) (map Call [0..<n]))
          = map Awaiting [generated c..<generated c + n]
      \<and> (js \<noteq> [] \<and> distinct js
          \<and> (\<forall>j\<in>set js. j < n
                \<and> handleNordigenError (client_generateToken api (generated c + j)) = Inr ()) \<longrightarrow>
            client (run api (start c n) (map Call [0..<n] @ map Resume js))
              = c\<lparr> generated := generated c + n,
                    token := access (client_generateToken api (generated c + last js)) \<rparr>))
   \<and> (i < length (callers w) \<and> callers w ! i = Awaiting k \<longrightarrow>
        client (step api w (Resume i)) =
           (case handleNordigenError (client_generateToken api k) of
              Inl e \<Rightarrow> client w
            | Inr u \<Rightarrow> (client w)\<lparr> token := access (client_generateToken api k) \<rparr>))
   \<and> (truthy (token c) \<longrightarrow>
      setToken api c = (Inr (), c) \<and> client (run api (start c n) evs) = c)
   \<and> client (run api (start c 1) [Call 0, Resume 0]) = snd (setToken api c)
   \<and> generated (snd (setToken api c))
       = (if truthy (token c) then generated c else Suc (generated c))"
proof -
  have a: "\<not> truthy (token c) \<longrightarrow>
      generated (client (run api (start c n) (map Call [0..<n]))) = generated c + n
      \<and> callers (run api (start c n) (map Call [0..<n]))
          = map Awaiting [generated c..<generated c + n]"
    by (simp add: calls_before_resume [of c n n api])
  have r: "client (run api (start c n) (map Call [0..<n] @ map Resume js))
              = c\<lparr> generated := generated c + n,
                    token := access (client_generateToken api (generated c + last js)) \<rparr>"
    if "\<not> truthy (token c)" and "js \<noteq> []" and "distinct js"
      and "\<forall>j\<in>set js. j < n
                \<and> handleNordigenError (client_generateToken api (generated c + j)) = Inr ()"
    using that
    by (simp add: run_append calls_before_resume [of c n n api]
        resumes_after_calls [of js n api "generated c"])
  have "none_awaiting (callers (start c n))"
    by (simp add: start_def none_awaiting_def list_all_iff)
  then have b: "truthy (token c) \<longrightarrow>
      setToken api c = (Inr (), c) \<and> client (run api (start c n) evs) = c"
    using run_cached [of "start c n" api evs] by (simp add: setToken_def start_def)
  from a r b resume_stores_own [of i w k api] call_resume_is_setToken [of api c]
    setToken_generated [of api c]
  show ?thesis by blast
qed

theorem setToken_fetches_witness:
  "\<not> truthy (token client0)
   \<and> generated (client (run api0 (start client0 2) (map Call [0..<2]))) = 2
   \<and> distinct [0, 1 :: nat]
   \<and> handleNordigenError (client_generateToken api0 0) = Inr ()
   \<and> handleNordigenError (client_generateToken api0 1) = Inr ()
   \<and> client (run api0 (start client0 2) (map Call [0..<2] @ map Resume [0, 1]))
       = \<lparr> token = Some ''t1'', generated = 2 \<rparr>
   \<and> callers (run api0 (start client0 2) [Call 0, Call 1]) ! 0 = Awaiting 0
   \<and> client (step api0 (run api0 (start client0 2) [Call 0, Call 1]) (Resume 0))
       = \<lparr> token = Some ''t0'', generated = 2 \<rparr>
   \<and> truthy (token client1)
   \<and> setToken api0 client1 = (Inr (), client1)
   \<and> client (run api0 (start client1 2) [Call 0, Call 1, Resume 0, Resume 1]) = client1"
proof -
  have h: "handleNordigenError (client_generateToken api0 j) = Inr ()" for j
    by (simp add: api0_def tokens0_def handleNordigenError_def)
  have w: "run api0 (start client0 2) [Call 0, Call 1]
           = \<lparr> client = \<lparr> token = None, generated = 2 \<rparr>, callers = [Awaiting 0, Awaiting 1] \<rparr>"
    by (simp add: run_Cons run_Nil start_def client0_def truthy_def numeral_2_eq_2)
  have t: "access (client_generateToken api0 0) = Some ''t0''"
    "access (client_generateToken api0 1) = Some ''t1''"
    by (simp_all add: api0_def tokens0_def)
  from setToken_fetches [where c = client0 and n = 2 and api = api0 and js = "[0, 1]" and i = 0
         and w = "run api0 (start client0 2) [Call 0, Call 1]" and k = 0 and evs = "[]"]
       setToken_fetches [where c = client1 and n = 2 and api = api0 and js = "[]" and i = 0
         and w = "run api0 (start client0 2) [Call 0, Call 1]" and k = 0
         and evs = "[Call 0, Call 1, Resume 0, Resume 1]"]
       h w t
  show ?thesis
    by (simp add: client0_def client1_def truthy_def)
qed

subsection \<open>The error taxonomy\<close>

text \<open>
  C6. The error-taxonomy mapping throws exactly when the response's \<^verbatim>\<open>status_code\<close> is
  one of the numbers 400, 401, 403, 404, 409, 429, 500, 503, each with its own typed
  error; for any other value, and for a response with no \<^verbatim>\<open>status_code\<close>, it returns
  normally.
\<close>

theorem handleNordigenError_taxonomy:
  "(isl (handleNordigenError response) =
      (status_code response \<in> (\<lambda>n. Some (JNum n)) ` {400, 401, 403, 404, 409, 429, 500, 503}))
   \<and> handleNordigenError response =
     (if status_code response = Some (JNum 400) then Inl InvalidInputDataError
      else if status_code response = Some (JNum 401) then Inl InvalidNordigenTokenError
      else if status_code response = Some (JNum 403) then Inl AccessDeniedError
      else if status_code response = Some (JNum 404) then Inl NotFoundError
      else if status_code response = Some (JNum 409) then Inl ResourceSuspended
      else if status_code response = Some (JNum 429) then Inl RateLimitError
      else if status_code response = Some (JNum 500) then Inl UnknownError
      else if status_code response = Some (JNum 503) then Inl ServiceError
      else Inr ())"
  by (auto simp: handleNordigenError_def split: option.splits jsval.splits)

end
